theory Spec2Isabelle
  imports Complex_Main
begin

section \<open>The session engine of app.py: data model\<close>

text \<open>
  A session is one JSON document per file under \<^verbatim>\<open>STORIES_DIR/sessions\<close>. The record below
  has the keys \<^verbatim>\<open>create_session\<close> writes, and the three keys added later by the pause
  endpoint and by completion (\<^verbatim>\<open>paused\<close>, \<^verbatim>\<open>paused_at\<close>, \<^verbatim>\<open>is_completed\<close>), which are
  optional: \<open>None\<close> is an absent key. \<^verbatim>\<open>turns\<close> and \<^verbatim>\<open>parts\<close> are always present and may
  hold JSON null (\<open>None\<close>). Time stamps are Python floats that the code only stores; they
  are opaque numbers here. Strings are lists of characters; \<open>length\<close> is Python's \<^verbatim>\<open>len\<close>.

  Of a character's data only the \<^verbatim>\<open>lore\<close> dictionary is read by the functions embedded here;
  the remaining keys (model, sampling, cot, context_limit) are consumed by
  \<^verbatim>\<open>convert_character_data_to_character\<close> and \<^verbatim>\<open>chat_call\<close>, on the provider's side of the
  interface below.
\<close>

type_synonym epoch = real

record char_data =
  lore :: "(string \<times> string) list"

record char_entry =
  char_id :: string
  char_name :: string
  char_data :: char_data

record message =
  mtype :: string
  mcharacter :: "string option"
  content :: string
  timestamp :: epoch
  sanitized :: "bool option"

record session =
  ident :: string
  stype :: string
  chatMode :: "string option"
  title :: string
  characters :: "char_entry list"
  scenario :: string
  setting :: string
  turns :: "int option"
  parts :: "int option"
  created_at :: epoch
  status :: string
  messages :: "message list"
  paused :: "bool option"
  paused_at :: "epoch option"
  is_completed :: "bool option"

text \<open>The session store: the directory of session files, keyed by session id. Every write
  is a whole-document rewrite (\<^verbatim>\<open>json.dump\<close>), every read a whole-document load. Reading and
  writing an existing directory are taken to succeed; a missing file is \<open>None\<close>.\<close>

type_synonym store = "string \<Rightarrow> session option"

datatype exn =
  ModelError | TypeError | ZeroDivisionError | KeyError | FileNotFoundError | JSONDecodeError

subsection \<open>String helpers of Python\<close>

definition is_space :: "char \<Rightarrow> bool" where
  "is_space c = ((of_char c :: nat) \<in> {9, 10, 11, 12, 13, 28, 29, 30, 31, 32, 133, 160})"

definition strip :: "string \<Rightarrow> string" where
  "strip s = rev (dropWhile is_space (rev (dropWhile is_space s)))"

fun join :: "string \<Rightarrow> string list \<Rightarrow> string" where
  "join sep [] = []"
| "join sep [x] = x"
| "join sep (x # y # ys) = x @ sep @ join sep (y # ys)"

text \<open>\<^verbatim>\<open>len(s.split())\<close>: the number of maximal runs of non-blank characters.\<close>

fun count_words :: "bool \<Rightarrow> string \<Rightarrow> nat" where
  "count_words in_word [] = 0"
| "count_words in_word (c # cs) =
     (if is_space c then count_words False cs
      else (if in_word then 0 else 1) + count_words True cs)"

definition last_six :: "'a list \<Rightarrow> 'a list" where
  "last_six xs = drop (length xs - 6) xs"

definition ai_messages :: "session \<Rightarrow> message list" where
  "ai_messages session_data = filter (\<lambda>msg. mtype msg = ''ai'') (messages session_data)"

subsection \<open>The generation provider\<close>

text \<open>
  The external provider is the OpenAI-compatible client. A call either raises or returns a
  completion whose content may be null. The provider has a state of its own (type \<open>'p\<close>),
  threaded through every call, so that the number and order of calls is part of what a
  function returns. A chat request stands for
  \<^verbatim>\<open>chat_call(convert_character_data_to_character(data, name), history, user_msg)\<close> up to the
  client call; a completion request is the sanitizer's direct client call.
\<close>

datatype api_result = Api_raises | Api_content "string option"

datatype request =
    Chat_request char_data string "(string \<times> string) list" string
  | Completion_request string string string real int

type_synonym 'p provider = "'p \<Rightarrow> request \<Rightarrow> api_result \<times> 'p"

text \<open>\<^verbatim>\<open>chat_call\<close> of core.py: raises ModelError when the client raises or the content
  is null, else returns the stripped content.\<close>

definition chat_call ::
  "'p provider \<Rightarrow> 'p \<Rightarrow> char_entry \<Rightarrow> (string \<times> string) list \<Rightarrow> string \<Rightarrow> (exn + string) \<times> 'p" where
  "chat_call prov p ch history user_msg =
     (case prov p (Chat_request (char_data ch) (char_name ch) history user_msg) of
        (Api_raises, p') \<Rightarrow> (Inl ModelError, p')
      | (Api_content None, p') \<Rightarrow> (Inl ModelError, p')
      | (Api_content (Some result), p') \<Rightarrow> (Inr (strip result), p'))"

subsection \<open>Responses\<close>

text \<open>
  One constructor per shape of JSON body the endpoints return:
  \<^item> \<open>Error_response code msg\<close>: \<^verbatim>\<open>{'error': msg}, code\<close> with a fixed message (400, 404);
  \<^item> \<open>Server_error e\<close>: the handler's \<^verbatim>\<open>except Exception\<close>, \<^verbatim>\<open>{'error': str(e)}, 500\<close>;
  \<^item> \<open>Paused_response\<close>: \<^verbatim>\<open>{'response': None, 'message': ..., 'paused': True}, 400\<close>;
  \<^item> \<open>Limit_reached n max\<close>: \<^verbatim>\<open>{'response': None, 'message': ..., 'completed': True}\<close>;
  \<^item> \<open>Generated r c n max\<close>:
    \<^verbatim>\<open>{'response': r, 'message': ..., 'completed': c, 'progress': {'current': n, 'max': max}}\<close>;
  \<^item> \<open>Story_generated r n max\<close>: the body of \<^verbatim>\<open>generate_complete_story\<close>, with
    \<^verbatim>\<open>'completed': True\<close>;
  \<^item> \<open>Bare_true\<close>: the Python value \<^verbatim>\<open>True\<close> that \<^verbatim>\<open>generate_complete_story\<close> returns in
    unlimited mode, which is no JSON body;
  \<^item> \<open>Sanitized a b d s\<close>: the sanitize endpoint's success body;
  \<^item> \<open>Created ...\<close>: the create endpoint's 201 body (id, type, title, characters,
    initial content, message);
  \<^item> \<open>Message_response msg\<close>: \<^verbatim>\<open>{'message': msg}\<close> of the pause and resume endpoints.
\<close>

datatype response =
    Error_response nat string
  | Server_error exn
  | Paused_response
  | Limit_reached nat int
  | Generated string bool nat "int option"
  | Story_generated string nat int
  | Bare_true
  | Sanitized nat nat int session
  | Created string string string "(string \<times> string) list" string string
  | Message_response string

fun http_code :: "response \<Rightarrow> nat option" where
  "http_code (Error_response c _) = Some c"
| "http_code (Server_error _) = Some 500"
| "http_code Paused_response = Some 400"
| "http_code (Created _ _ _ _ _ _) = Some 201"
| "http_code Bare_true = None"
| "http_code _ = Some 200"

text \<open>The \<^verbatim>\<open>completed\<close> key of a body, \<open>None\<close> when the body has none.\<close>

fun completed_of :: "response \<Rightarrow> bool option" where
  "completed_of (Limit_reached _ _) = Some True"
| "completed_of (Generated _ c _ _) = Some c"
| "completed_of (Story_generated _ _ _) = Some True"
| "completed_of _ = None"


section \<open>The sanitizer\<close>

record preset =
  preset_model :: "string option"
  preset_temperature :: "real option"
  preset_max_tokens :: "int option"

text \<open>A preset file: absent, present but not loadable as JSON, or loaded.\<close>

datatype 'a disk_file = No_file | Unreadable | File 'a

definition sanitize_system :: string where
  "sanitize_system =
     ''You are a careful, low-temperature text sanitizer. Only remove problems, do not rewrite.''"

definition sanitize_prompt :: "string \<Rightarrow> string" where
  "sanitize_prompt story_content =
     ''You are a careful text sanitizer. Your job is to clean the following story by:\<newline>'' @
     ''- Removing repetitive loops where the model repeats itself\<newline>'' @
     ''- Removing meta-commentary or breaking character\<newline>'' @
     ''- Removing nonsensical gibberish or illogical parts\<newline>'' @
     ''- Removing excessive repetition of phrases or ideas\<newline>'' @
     ''- DO NOT change the actual story content, plot, or creative elements\<newline>'' @
     ''- DO NOT rewrite or improve the story - only remove problematic parts\<newline>'' @
     ''- Preserve the original creative voice and style\<newline>'' @
     ''- Keep the story coherent and flowing naturally\<newline>'' @
     ''\<newline>'' @
     ''Return only the cleaned story with problems removed.\<newline>'' @
     ''\<newline>'' @
     ''===\<newline>'' @ story_content @ ''\<newline>===''"

text \<open>The tail of \<^verbatim>\<open>sanitize_story\<close> after the client call: the \<^verbatim>\<open>except\<close> branch returns the
  input, and so does an empty or null content.\<close>

fun sanitize_result :: "string \<Rightarrow> api_result \<times> 'p \<Rightarrow> string \<times> 'p" where
  "sanitize_result story_content (Api_raises, p') = (story_content, p')"
| "sanitize_result story_content (Api_content None, p') = (story_content, p')"
| "sanitize_result story_content (Api_content (Some result), p') =
     (if result = [] then story_content else strip result, p')"

text \<open>The arguments of the client call of \<^verbatim>\<open>sanitize_story\<close>: from the preset when its
  file exists, the fallback settings when it does not; no call when loading the file
  raises.\<close>

definition sanitize_request :: "(string \<Rightarrow> preset disk_file) \<Rightarrow> string \<Rightarrow> string \<Rightarrow> request option" where
  "sanitize_request presets story_content preset_id =
     (let prompt = sanitize_prompt story_content;
          n_words = int (count_words False story_content)
      in case presets preset_id of
           Unreadable \<Rightarrow> None
         | File preset_data \<Rightarrow>
             Some (Completion_request
                  (case preset_model preset_data of None \<Rightarrow> ''default-model'' | Some m \<Rightarrow> m)
                  sanitize_system prompt
                  (case preset_temperature preset_data of None \<Rightarrow> 2 / 10 | Some t \<Rightarrow> t)
                  (case preset_max_tokens preset_data of None \<Rightarrow> n_words * 2 | Some k \<Rightarrow> k))
         | No_file \<Rightarrow>
             Some (Completion_request ''default-model'' sanitize_system prompt (2 / 10)
                  (min 100000 (n_words * 3))))"

definition sanitize_story ::
  "'p provider \<Rightarrow> (string \<Rightarrow> preset disk_file) \<Rightarrow> 'p \<Rightarrow> string \<Rightarrow> string \<Rightarrow> string \<times> 'p" where
  "sanitize_story prov presets p story_content preset_id =
     (case sanitize_request presets story_content preset_id of
        None \<Rightarrow> (story_content, p)
      | Some req \<Rightarrow> sanitize_result story_content (prov p req))"

text \<open>The endpoint \<^verbatim>\<open>POST /api/sessions/<id>/sanitize\<close>. \<open>now\<close> is the clock reading of
  \<^verbatim>\<open>datetime.datetime.now().timestamp()\<close>; \<open>preset_id\<close> is the request's optional key. The
  analytics update after the write belongs to the analytics subsystem and is not part of
  the session state.\<close>

definition sanitize_session_story ::
  "'p provider \<Rightarrow> (string \<Rightarrow> preset disk_file) \<Rightarrow> epoch \<Rightarrow> store \<Rightarrow> 'p \<Rightarrow> string \<Rightarrow> string option
     \<Rightarrow> response \<times> store \<times> 'p" where
  "sanitize_session_story prov presets now st p session_id preset_opt =
     (let preset_id = (case preset_opt of None \<Rightarrow> ''sanitizer-balanced'' | Some i \<Rightarrow> i)
      in case st session_id of
           None \<Rightarrow> (Error_response 404 ''Session not found'', st, p)
         | Some session_data \<Rightarrow>
             if stype session_data \<noteq> ''story''
             then (Error_response 400 ''Sanitization only available for story sessions'', st, p)
             else if ai_messages session_data = []
             then (Error_response 400 ''No story content to sanitize'', st, p)
             else
               let story_parts = map content (ai_messages session_data);
                   original_story = join ''\<newline>\<newline>'' story_parts;
                   (sanitized_story, p') = sanitize_story prov presets p original_story preset_id;
                   session_data' = session_data
                     \<lparr>messages := [\<lparr>mtype = ''ai'', mcharacter = None, content = sanitized_story,
                                     timestamp = now, sanitized = Some True\<rparr>]\<rparr>
               in (Sanitized (length original_story) (length sanitized_story)
                     (int (length original_story) - int (length sanitized_story)) session_data',
                   st(session_id \<mapsto> session_data'), p'))"

section \<open>Pause and resume\<close>

text \<open>\<^verbatim>\<open>POST /api/sessions/<id>/pause\<close> and \<^verbatim>\<open>/resume\<close>: load, change the two pause keys,
  dump. \<^verbatim>\<open>dict.pop(key, None)\<close> removes a key if present.\<close>

definition pause_session :: "epoch \<Rightarrow> store \<Rightarrow> string \<Rightarrow> response \<times> store" where
  "pause_session now st session_id =
     (case st session_id of
        None \<Rightarrow> (Error_response 404 ''Session not found'', st)
      | Some session_data \<Rightarrow>
          (Message_response ''Session paused successfully'',
           st(session_id \<mapsto> session_data\<lparr>paused := Some True, paused_at := Some now\<rparr>)))"

definition resume_session :: "store \<Rightarrow> string \<Rightarrow> response \<times> store" where
  "resume_session st session_id =
     (case st session_id of
        None \<Rightarrow> (Error_response 404 ''Session not found'', st)
      | Some session_data \<Rightarrow>
          (Message_response ''Session resumed successfully'',
           st(session_id \<mapsto> session_data\<lparr>paused := None, paused_at := None\<rparr>)))"

section \<open>Generating one turn\<close>

definition ai_message :: "string \<Rightarrow> epoch \<Rightarrow> message" where
  "ai_message text mtime =
     \<lparr>mtype = ''ai'', mcharacter = None, content = text, timestamp = mtime, sanitized = None\<rparr>"

definition user_message :: "string \<Rightarrow> epoch \<Rightarrow> message" where
  "user_message text mtime =
     \<lparr>mtype = ''user'', mcharacter = None, content = text, timestamp = mtime, sanitized = None\<rparr>"

definition system_message :: "string \<Rightarrow> epoch \<Rightarrow> message" where
  "system_message text mtime =
     \<lparr>mtype = ''system'', mcharacter = None, content = text, timestamp = mtime, sanitized = None\<rparr>"

text \<open>\<^verbatim>\<open>lore.get(key)\<close> used as a condition: present and not empty.\<close>

definition lore_get :: "char_entry \<Rightarrow> string \<Rightarrow> string option" where
  "lore_get ch key = map_of (lore (char_data ch)) key"

definition personality_part :: "char_entry \<Rightarrow> string list" where
  "personality_part ch =
     (case lore_get ch ''personality'' of
        None \<Rightarrow> []
      | Some v \<Rightarrow> if v = [] then [] else [''Your personality: '' @ v])"

definition story_opening_prompt :: "session \<Rightarrow> string" where
  "story_opening_prompt session_data =
     join ''\<newline>''
       ([''Generate an engaging story opening with the following elements:''] @
        (if setting session_data \<noteq> [] then [''Setting: '' @ setting session_data] else []) @
        (if scenario session_data \<noteq> [] then [''Scenario: '' @ scenario session_data] else []) @
        [''Characters:''] @
        map (\<lambda>ch. ''- '' @ char_name ch @ '': '' @
               (case lore_get ch ''description'' of None \<Rightarrow> ''No description'' | Some d \<Rightarrow> d))
          (characters session_data) @
        [''\<newline>Write a compelling opening that introduces the setting and sets up the scenario. Keep it under 300 words.''])"

text \<open>\<^verbatim>\<open>generate_story_opening\<close>: \<open>None\<close> when there is no character or the call raises.\<close>

definition generate_story_opening ::
  "'p provider \<Rightarrow> 'p \<Rightarrow> session \<Rightarrow> string option \<times> 'p" where
  "generate_story_opening prov p session_data =
     (case characters session_data of
        [] \<Rightarrow> (None, p)
      | first_char # _ \<Rightarrow>
          (case chat_call prov p first_char [] (story_opening_prompt session_data) of
             (Inl e, p') \<Rightarrow> (None, p')
           | (Inr response, p') \<Rightarrow> (Some (strip response), p')))"

definition story_fallback :: string where
  "story_fallback = ''I'm having trouble generating the story continuation. Please try again.''"

definition chat_fallback :: string where
  "chat_fallback = ''I'm having trouble responding right now. Please try again.''"

definition story_user_msg :: "session \<Rightarrow> string \<Rightarrow> string" where
  "story_user_msg session_data user_input =
     (let story_parts = map content (ai_messages session_data)
      in if story_parts = [] then ''Story idea: '' @ scenario session_data
         else
           let story_so_far = join ''\<newline>\<newline>'' story_parts
           in if user_input \<noteq> []
              then ''Story so far:\<newline>'' @ story_so_far @ ''\<newline>\<newline>User direction: '' @ user_input @
                   ''\<newline>\<newline>Continue the story.''
              else ''Story so far:\<newline>'' @ story_so_far @ ''\<newline>\<newline>Continue the story.'')"

text \<open>\<^verbatim>\<open>generate_story_continuation\<close>. With no character the modulus raises
  ZeroDivisionError; every exception ends in the fallback text.\<close>

definition generate_story_continuation ::
  "'p provider \<Rightarrow> 'p \<Rightarrow> session \<Rightarrow> string \<Rightarrow> string \<times> 'p" where
  "generate_story_continuation prov p session_data user_input =
     (let user_msg = story_user_msg session_data user_input
      in if characters session_data = [] then (story_fallback, p)
         else
           let char_index = length (messages session_data) mod length (characters session_data)
           in case chat_call prov p (characters session_data ! char_index) [] user_msg of
                (Inl e, p') \<Rightarrow> (story_fallback, p')
              | (Inr response, p') \<Rightarrow> (strip response, p'))"

definition chat_history :: "session \<Rightarrow> (string \<times> string) list" where
  "chat_history session_data =
     concat (map (\<lambda>msg. if mtype msg = ''user'' then [(''user'', content msg)]
                         else if mtype msg = ''ai'' then [(''assistant'', content msg)]
                         else [])
               (last_six (messages session_data)))"

definition chat_prompt :: "session \<Rightarrow> char_entry \<Rightarrow> string \<Rightarrow> string" where
  "chat_prompt session_data responding_char user_input =
     join ''\<newline>''
       ((if scenario session_data \<noteq> [] then [''Scenario: '' @ scenario session_data] else []) @
        [''You are '' @ char_name responding_char @ '' in a conversation.''] @
        personality_part responding_char @
        (if user_input \<noteq> [] then [''User: '' @ user_input] else []) @
        [''\<newline>Respond as '' @ char_name responding_char @ '' in character:''])"

text \<open>\<^verbatim>\<open>generate_chat_response\<close>.\<close>

definition generate_chat_response ::
  "'p provider \<Rightarrow> 'p \<Rightarrow> session \<Rightarrow> string \<Rightarrow> string \<times> 'p" where
  "generate_chat_response prov p session_data user_input =
     (if characters session_data = [] then (chat_fallback, p)
      else
        let char_index = length (ai_messages session_data) mod length (characters session_data);
            responding_char = characters session_data ! char_index
        in case chat_call prov p responding_char (chat_history session_data)
                  (chat_prompt session_data responding_char user_input) of
             (Inl e, p') \<Rightarrow> (chat_fallback, p')
           | (Inr response, p') \<Rightarrow> (strip response, p'))"

definition chat_opening_prompt :: "session \<Rightarrow> char_entry \<Rightarrow> string" where
  "chat_opening_prompt session_data first_char =
     join ''\<newline>''
       ([''You are '' @ char_name first_char @ '' starting a conversation.''] @
        (if scenario session_data \<noteq> [] then [''Topic/Scenario: '' @ scenario session_data] else []) @
        (if setting session_data \<noteq> [] then [''Setting: '' @ setting session_data] else []) @
        personality_part first_char @
        [''Start the conversation with a greeting or opening statement (1-2 sentences):''])"

text \<open>\<^verbatim>\<open>generate_chat_opening\<close>.\<close>

definition generate_chat_opening ::
  "'p provider \<Rightarrow> 'p \<Rightarrow> session \<Rightarrow> string option \<times> 'p" where
  "generate_chat_opening prov p session_data =
     (case characters session_data of
        [] \<Rightarrow> (None, p)
      | first_char # _ \<Rightarrow>
          (case chat_call prov p first_char [] (chat_opening_prompt session_data first_char) of
             (Inl e, p') \<Rightarrow> (None, p')
           | (Inr response, p') \<Rightarrow> (Some (strip response), p')))"

section \<open>Auto-run loops\<close>

text \<open>
  \<^verbatim>\<open>generate_complete_story\<close>. The loop \<^verbatim>\<open>for part_num in range(1, max_parts)\<close> runs
  \<open>nat (max_parts - 1)\<close> times. Each iteration reloads the document from the store (a missing
  file raises), asks for one continuation, and appends and saves it when it is not empty.
  \<open>story_part_iteration\<close> is the loop body, \<open>story_parts_loop\<close> the loop.
\<close>

definition story_part_iteration ::
  "'p provider \<Rightarrow> epoch \<Rightarrow> string \<Rightarrow> store \<Rightarrow> 'p \<Rightarrow> (exn + session) \<times> store \<times> 'p" where
  "story_part_iteration prov mtime session_file st p =
     (case st session_file of
        None \<Rightarrow> (Inl FileNotFoundError, st, p)
      | Some session_data \<Rightarrow>
          (case generate_story_continuation prov p session_data [] of
             (response, p') \<Rightarrow>
               if response \<noteq> []
               then let session_data' =
                          session_data\<lparr>messages := messages session_data @ [ai_message response mtime]\<rparr>
                    in (Inr session_data', st(session_file \<mapsto> session_data'), p')
               else (Inr session_data, st, p')))"

fun story_parts_loop ::
  "'p provider \<Rightarrow> epoch \<Rightarrow> string \<Rightarrow> nat \<Rightarrow> session \<Rightarrow> store \<Rightarrow> 'p \<Rightarrow> (exn + session) \<times> store \<times> 'p" where
  "story_parts_loop prov mtime session_file 0 session_data st p = (Inr session_data, st, p)"
| "story_parts_loop prov mtime session_file (Suc k) session_data st p =
     (case story_part_iteration prov mtime session_file st p of
        (Inl e, st', p') \<Rightarrow> (Inl e, st', p')
      | (Inr session_data', st', p') \<Rightarrow> story_parts_loop prov mtime session_file k session_data' st' p')"

text \<open>The opening of a story run: the in-memory document with its messages replaced by the
  opening, saved, when an opening came back; otherwise nothing is written.\<close>

definition story_opening_step ::
  "'p provider \<Rightarrow> epoch \<Rightarrow> session \<Rightarrow> string \<Rightarrow> store \<Rightarrow> 'p \<Rightarrow> bool \<Rightarrow> session \<times> store \<times> 'p" where
  "story_opening_step prov mtime session_data session_file st p mark_active =
     (case generate_story_opening prov p session_data of
        (None, p') \<Rightarrow> (session_data, st, p')
      | (Some opening, p') \<Rightarrow>
          if opening \<noteq> []
          then let session_data' =
                     (if mark_active
                      then session_data\<lparr>messages := [ai_message opening mtime], status := ''active''\<rparr>
                      else session_data\<lparr>messages := [ai_message opening mtime]\<rparr>)
               in (session_data', st(session_file \<mapsto> session_data'), p')
          else (session_data, st, p'))"

definition generate_complete_story ::
  "'p provider \<Rightarrow> epoch \<Rightarrow> session \<Rightarrow> string \<Rightarrow> store \<Rightarrow> 'p \<Rightarrow> response \<times> store \<times> 'p" where
  "generate_complete_story prov mtime session_data session_file st p =
     (let max_parts = parts session_data
      in if max_parts = Some 999
         then (case story_opening_step prov mtime session_data session_file st p True of
                 (session_data', st', p') \<Rightarrow> (Bare_true, st', p'))
         else
           (case story_opening_step prov mtime session_data session_file st p False of
              (session_data1, st1, p1) \<Rightarrow>
                (case max_parts of
                   None \<Rightarrow> (Server_error TypeError, st1, p1)
                 | Some n \<Rightarrow>
                     (case story_parts_loop prov mtime session_file (nat (n - 1)) session_data1 st1 p1 of
                        (Inl e, st2, p2) \<Rightarrow> (Server_error e, st2, p2)
                      | (Inr session_data2, st2, p2) \<Rightarrow>
                          let session_data3 =
                                session_data2\<lparr>status := ''completed'', is_completed := Some True\<rparr>;
                              all_parts = map content (ai_messages session_data3)
                          in (Story_generated (join ''\<newline>\<newline>'' all_parts) (length all_parts) n,
                              st2(session_file \<mapsto> session_data3), p2)))))"

text \<open>
  \<^verbatim>\<open>generate_multi_character_conversation\<close>. The document is never reloaded: the loop works on
  the in-memory document and rewrites the file from it. \<^verbatim>\<open>chat_call\<close> is not guarded inside
  the loop, so a ModelError leaves the loop for the function's \<^verbatim>\<open>except\<close>, which returns
  False. The function returns None (fewer than two characters), True or False.
\<close>

definition multi_prompt ::
  "session \<Rightarrow> char_entry \<Rightarrow> (string \<times> string) list \<Rightarrow> nat \<Rightarrow> string" where
  "multi_prompt session_data current_char conversation_history turn =
     (let other_chars = filter (\<lambda>n. n \<noteq> char_name current_char)
                          (map char_name (characters session_data))
      in join ''\<newline>''
       ([''You are '' @ char_name current_char @ '' in a conversation.''] @
        (if scenario session_data \<noteq> [] then [''Topic/Scenario: '' @ scenario session_data] else []) @
        (if setting session_data \<noteq> [] then [''Setting: '' @ setting session_data] else []) @
        personality_part current_char @
        (if other_chars \<noteq> [] then [''You are talking with: '' @ join '', '' other_chars] else []) @
        (if conversation_history \<noteq> []
         then [''\<newline>Conversation so far:''] @
              map (\<lambda>(c, m). c @ '': '' @ m) (last_six conversation_history)
         else []) @
        (if turn = 0 then [''\<newline>Start the conversation with a greeting or opening statement:'']
         else [''\<newline>Respond naturally to continue the conversation:''])))"

fun multi_turns ::
  "'p provider \<Rightarrow> epoch \<Rightarrow> string \<Rightarrow> nat \<Rightarrow> nat \<Rightarrow> (string \<times> string) list \<Rightarrow> session \<Rightarrow> store \<Rightarrow> 'p
     \<Rightarrow> (exn + session) \<times> store \<times> 'p" where
  "multi_turns prov mtime session_file 0 turn conversation_history session_data st p =
     (Inr session_data, st, p)"
| "multi_turns prov mtime session_file (Suc k) turn conversation_history session_data st p =
     (let current_char = characters session_data ! (turn mod length (characters session_data))
      in case chat_call prov p current_char []
                (multi_prompt session_data current_char conversation_history turn) of
           (Inl e, p') \<Rightarrow> (Inl e, st, p')
         | (Inr response, p') \<Rightarrow>
             if response \<noteq> []
             then let cleaned_response = strip response;
                      session_data' = session_data
                        \<lparr>messages := messages session_data @
                           [\<lparr>mtype = ''ai'', mcharacter = Some (char_name current_char),
                             content = cleaned_response, timestamp = mtime, sanitized = None\<rparr>]\<rparr>
                  in multi_turns prov mtime session_file k (Suc turn)
                       (conversation_history @ [(char_name current_char, cleaned_response)])
                       session_data' (st(session_file \<mapsto> session_data')) p'
             else multi_turns prov mtime session_file k (Suc turn) conversation_history
                    session_data st p')"

definition generate_multi_character_conversation ::
  "'p provider \<Rightarrow> epoch \<Rightarrow> session \<Rightarrow> string \<Rightarrow> store \<Rightarrow> 'p \<Rightarrow> bool option \<times> store \<times> 'p" where
  "generate_multi_character_conversation prov mtime session_data session_file st p =
     (if length (characters session_data) < 2 then (None, st, p)
      else
        case turns session_data of
          None \<Rightarrow> (Some False, st, p)
        | Some max_turns \<Rightarrow>
            (case multi_turns prov mtime session_file (nat max_turns) 0 [] session_data st p of
               (Inl e, st', p') \<Rightarrow> (Some False, st', p')
             | (Inr session_data', st', p') \<Rightarrow>
                 (Some True,
                  st'(session_file \<mapsto> session_data'\<lparr>status := ''completed'', is_completed := Some True\<rparr>),
                  p')))"

section \<open>The generate endpoint\<close>

text \<open>\<^verbatim>\<open>POST /api/sessions/<id>/generate\<close>. \<open>limit_check\<close> is the block under
  \<^verbatim>\<open>if not is_quick_chat\<close>: it returns the early response when the limit is reached, and
  raises TypeError when a chat's \<^verbatim>\<open>turns\<close> is null (an int compared with None).\<close>

definition limit_check :: "session \<Rightarrow> exn + response option" where
  "limit_check session_data =
     (let current_count = length (ai_messages session_data)
      in if stype session_data = ''chat''
         then (case turns session_data of
                 None \<Rightarrow> Inl TypeError
               | Some max_turns \<Rightarrow>
                   if int current_count \<ge> max_turns
                   then Inr (Some (Limit_reached current_count max_turns))
                   else Inr None)
         else (case parts session_data of
                 None \<Rightarrow> Inr None
               | Some max_parts \<Rightarrow>
                   if max_parts \<noteq> 999 \<and> int current_count \<ge> max_parts
                   then Inr (Some (Limit_reached current_count max_parts))
                   else Inr None))"

text \<open>The end of the handler for regular sessions: the completion test, the status update
  and the progress report.\<close>

definition finish_turn :: "string \<Rightarrow> session \<Rightarrow> string \<Rightarrow> store \<Rightarrow> response \<times> store" where
  "finish_turn response session_data session_id st =
     (let current_count = length (ai_messages session_data)
      in case (if stype session_data = ''chat''
               then (case turns session_data of
                       None \<Rightarrow> Inl TypeError
                     | Some max_turns \<Rightarrow> Inr (int current_count \<ge> max_turns))
               else (case parts session_data of
                       None \<Rightarrow> Inr False
                     | Some max_parts \<Rightarrow> Inr (max_parts \<noteq> 999 \<and> int current_count \<ge> max_parts))) of
           Inl e \<Rightarrow> (Server_error e, st)
         | Inr completed \<Rightarrow>
             let st' = (if completed
                        then st(session_id \<mapsto>
                               session_data\<lparr>status := ''completed'', is_completed := Some True\<rparr>)
                        else st);
                 progress_max =
                   (if stype session_data = ''chat'' then turns session_data
                    else if parts session_data = Some 999 \<or> parts session_data = None then None
                    else parts session_data)
             in (Generated response completed current_count progress_max, st'))"

definition generate_session_content ::
  "'p provider \<Rightarrow> epoch \<Rightarrow> store \<Rightarrow> 'p \<Rightarrow> string \<Rightarrow> string \<Rightarrow> response \<times> store \<times> 'p" where
  "generate_session_content prov mtime st p session_id user_input =
     (case st session_id of
        None \<Rightarrow> (Error_response 404 ''Session not found'', st, p)
      | Some session_data \<Rightarrow>
          if paused session_data = Some True then (Paused_response, st, p)
          else
            let is_quick_chat = (turns session_data = Some 999)
            in case (if is_quick_chat then Inr None else limit_check session_data) of
                 Inl e \<Rightarrow> (Server_error e, st, p)
               | Inr (Some early) \<Rightarrow> (early, st, p)
               | Inr None \<Rightarrow>
                   if stype session_data = ''story'' \<and> user_input = []
                   then generate_complete_story prov mtime session_data session_id st p
                   else
                     (case (if stype session_data = ''story''
                            then generate_story_continuation prov p session_data user_input
                            else generate_chat_response prov p session_data user_input) of
                        (response, p') \<Rightarrow>
                          (case (if response \<noteq> []
                                 then let session_data' = session_data
                                            \<lparr>messages := messages session_data @
                                               (if user_input \<noteq> [] then [user_message user_input mtime]
                                                else []) @
                                               [ai_message response mtime]\<rparr>
                                      in (session_data', st(session_id \<mapsto> session_data'))
                                 else (session_data, st)) of
                             (session_data', st') \<Rightarrow>
                               if is_quick_chat
                               then (Generated response False
                                       (length (ai_messages session_data')) None, st', p')
                               else (case finish_turn response session_data' session_id st' of
                                       (r, st'') \<Rightarrow> (r, st'', p')))))"

subsection \<open>Limits\<close>

text \<open>
  The limit of a session is its \<^verbatim>\<open>turns\<close> when its type is chat and its \<^verbatim>\<open>parts\<close> otherwise.
  It is bounded by \<open>L\<close> when it is the integer \<open>L\<close> and not the sentinel 999; for a session
  that is not a chat, \<^verbatim>\<open>turns\<close> (which \<^verbatim>\<open>create_session\<close> writes as null) must not be the
  sentinel either, since the handler tests \<^verbatim>\<open>turns == 999\<close> whatever the type. It is
  unlimited when it is the sentinel, or null for a session that is not a chat.
\<close>

definition bounded_limit :: "session \<Rightarrow> int \<Rightarrow> bool" where
  "bounded_limit session_data L =
     (L \<noteq> 999 \<and>
      (if stype session_data = ''chat'' then turns session_data = Some L
       else parts session_data = Some L \<and> turns session_data \<noteq> Some 999))"


section \<open>The create endpoint\<close>

text \<open>
  \<^verbatim>\<open>POST /api/sessions\<close>. The request body: an absent key is \<open>None\<close>; for \<^verbatim>\<open>turns\<close> and
  \<^verbatim>\<open>parts\<close>, \<open>Some None\<close> is an explicit null. The character files are an environment
  (\<open>char_files\<close>: \<^verbatim>\<open>find_character_file\<close> and \<^verbatim>\<open>json.load\<close>), and so is
  \<^verbatim>\<open>apply_model_preset_to_character\<close> (\<open>None\<close>: it raises FileOperationError, and the
  original data are kept). \<open>new_id\<close> is the value of \<^verbatim>\<open>generate_session_id()\<close>, \<open>mtime\<close> the
  reading of \<^verbatim>\<open>pathlib.Path().stat().st_mtime\<close>.

  The endpoint starts the auto-run on a background thread and returns. The model returns
  the scheduled run as a \<open>task\<close> beside the response; \<open>run_task\<close> is what the thread
  executes. The thread of a multi-character chat shares the in-memory document with the
  handler, which appends the system message right after starting it; the task carries the
  document with that message.
\<close>

record char_info =
  info_id :: string
  info_name :: string
  info_preset :: "string option"

record create_request =
  req_characters :: "char_info list option"
  req_type :: "string option"
  req_chatMode :: "string option"
  req_scenario :: "string option"
  req_setting :: "string option"
  req_turns :: "int option option"
  req_parts :: "int option option"

datatype task = Story_task session string | Multi_task session string

fun load_characters ::
  "(string \<Rightarrow> char_data disk_file) \<Rightarrow> (char_data \<Rightarrow> string \<Rightarrow> char_data option) \<Rightarrow> char_info list
     \<Rightarrow> exn + char_entry list" where
  "load_characters char_files apply_preset [] = Inr []"
| "load_characters char_files apply_preset (c # cs) =
     (case char_files (info_id c) of
        No_file \<Rightarrow> load_characters char_files apply_preset cs
      | Unreadable \<Rightarrow> Inl JSONDecodeError
      | File d \<Rightarrow>
          (let d' = (case info_preset c of
                       None \<Rightarrow> d
                     | Some pr \<Rightarrow> if pr = [] then d
                                  else (case apply_preset d pr of None \<Rightarrow> d | Some d2 \<Rightarrow> d2))
           in case load_characters char_files apply_preset cs of
                Inl e \<Rightarrow> Inl e
              | Inr rest \<Rightarrow> Inr (\<lparr>char_id = info_id c, char_name = info_name c, char_data = d'\<rparr> # rest)))"

definition session_title :: "string \<Rightarrow> string \<Rightarrow> char_entry list \<Rightarrow> string" where
  "session_title session_type chat_mode session_characters =
     (let names = join '', '' (map char_name session_characters)
      in if session_type = ''chat'' \<and> chat_mode = ''multi'' then ''Multi-Character Chat - '' @ names
         else if session_type = ''chat'' then ''Chat Session - '' @ names
         else ''Story Session - '' @ names)"

definition new_session ::
  "create_request \<Rightarrow> string \<Rightarrow> epoch \<Rightarrow> string \<Rightarrow> string \<Rightarrow> char_entry list \<Rightarrow> session" where
  "new_session data session_id mtime session_type chat_mode session_characters =
     \<lparr>ident = session_id,
      stype = session_type,
      chatMode = (if session_type = ''chat'' then Some chat_mode else None),
      title = session_title session_type chat_mode session_characters,
      characters = session_characters,
      scenario = (case req_scenario data of None \<Rightarrow> [] | Some x \<Rightarrow> x),
      setting = (case req_setting data of None \<Rightarrow> [] | Some x \<Rightarrow> x),
      turns = (if session_type = ''chat''
               then (case req_turns data of None \<Rightarrow> Some 6 | Some v \<Rightarrow> v) else None),
      parts = (if session_type = ''story''
               then (case req_parts data of None \<Rightarrow> Some 4 | Some v \<Rightarrow> v) else None),
      created_at = mtime,
      status = ''active'',
      messages = [],
      paused = None,
      paused_at = None,
      is_completed = None\<rparr>"

definition created_response :: "session \<Rightarrow> string \<Rightarrow> string \<Rightarrow> response" where
  "created_response session_data initial_content msg =
     Created (ident session_data) (stype session_data) (title session_data)
       (map (\<lambda>c. (char_id c, char_name c)) (characters session_data)) initial_content msg"

definition create_session ::
  "'p provider \<Rightarrow> (string \<Rightarrow> char_data disk_file) \<Rightarrow> (char_data \<Rightarrow> string \<Rightarrow> char_data option)
     \<Rightarrow> string \<Rightarrow> epoch \<Rightarrow> create_request \<Rightarrow> store \<Rightarrow> 'p
     \<Rightarrow> response \<times> store \<times> 'p \<times> task option" where
  "create_session prov char_files apply_preset new_id mtime data st p =
     (case req_characters data of
        None \<Rightarrow> (Error_response 400 ''Characters are required'', st, p, None)
      | Some [] \<Rightarrow> (Error_response 400 ''Characters are required'', st, p, None)
      | Some (c # cs) \<Rightarrow>
          let session_type = (case req_type data of None \<Rightarrow> ''chat'' | Some t \<Rightarrow> t);
              chat_mode = (case req_chatMode data of None \<Rightarrow> ''single'' | Some m \<Rightarrow> m)
          in case load_characters char_files apply_preset (c # cs) of
               Inl e \<Rightarrow> (Server_error e, st, p, None)
             | Inr session_characters \<Rightarrow>
                 let session_data =
                       new_session data new_id mtime session_type chat_mode session_characters;
                     st1 = st(new_id \<mapsto> session_data)
                 in if session_type \<noteq> ''chat'' \<and> session_type \<noteq> ''story''
                    then (Server_error KeyError, st1, p, None)
                    else if session_type = ''story''
                    then (created_response session_data ''Story generation started automatically''
                            ''Story session created and generation started'',
                          st1, p, Some (Story_task session_data new_id))
                    else if chat_mode = ''multi''
                    then
                      let initial_content = ''Multi-character conversation started between '' @
                            join '', '' (map char_name session_characters);
                          session_data' = session_data
                            \<lparr>messages := messages session_data @ [system_message initial_content mtime]\<rparr>
                      in (created_response session_data' initial_content ''Session created successfully'',
                          st1(new_id \<mapsto> session_data'), p, Some (Multi_task session_data' new_id))
                    else
                      (case generate_chat_opening prov p session_data of
                         (initial_content, p') \<Rightarrow>
                           (case initial_content of
                              None \<Rightarrow>
                                (created_response session_data ''Chat session created''
                                   ''Session created successfully'', st1, p', None)
                            | Some text \<Rightarrow>
                                if text = []
                                then (created_response session_data ''Chat session created''
                                        ''Session created successfully'', st1, p', None)
                                else
                                  let session_data' = session_data
                                        \<lparr>messages := messages session_data @ [system_message text mtime]\<rparr>
                                  in (created_response session_data' text ''Session created successfully'',
                                      st1(new_id \<mapsto> session_data'), p', None))))"

text \<open>What the background thread of a task does to the store and the provider.\<close>

fun run_task :: "'p provider \<Rightarrow> epoch \<Rightarrow> task \<Rightarrow> store \<Rightarrow> 'p \<Rightarrow> store \<times> 'p" where
  "run_task prov mtime (Story_task session_data session_file) st p =
     snd (generate_complete_story prov mtime session_data session_file st p)"
| "run_task prov mtime (Multi_task session_data session_file) st p =
     snd (generate_multi_character_conversation prov mtime session_data session_file st p)"

section \<open>Concrete providers and sessions\<close>

text \<open>A scripted provider: its state is the list of outcomes still to come, one per call,
  whatever the request; it raises once the script is used up.\<close>

fun scripted :: "api_result list provider" where
  "scripted [] req = (Api_raises, [])"
| "scripted (r # rs) req = (r, rs)"

text \<open>A logging provider: it answers every request with the same text and keeps the
  requests it received, in order.\<close>

definition logging :: "request list provider" where
  "logging seen req = (Api_content (Some ''Once more.''), seen @ [req])"

fun requested_name :: "request \<Rightarrow> string" where
  "requested_name (Chat_request d n h m) = n"
| "requested_name (Completion_request m s u t k) = m"

definition nova :: char_entry where
  "nova = \<lparr>char_id = ''nova'', char_name = ''Nova'',
           char_data = \<lparr>lore = [(''personality'', ''curious'')]\<rparr>\<rparr>"

definition vega :: char_entry where
  "vega = \<lparr>char_id = ''vega'', char_name = ''Vega'', char_data = \<lparr>lore = []\<rparr>\<rparr>"

definition story_demo :: session where
  "story_demo =
     \<lparr>ident = ''a1b2c3d4'', stype = ''story'', chatMode = None,
      title = ''Story Session - Nova'', characters = [nova],
      scenario = ''A lighthouse'', setting = [], turns = None, parts = Some 3,
      created_at = 0, status = ''active'', messages = [],
      paused = None, paused_at = None, is_completed = None\<rparr>"

definition chat_demo :: session where
  "chat_demo =
     \<lparr>ident = ''e5f6a7b8'', stype = ''chat'', chatMode = Some ''single'',
      title = ''Chat Session - Nova'', characters = [nova],
      scenario = [], setting = [], turns = Some 2, parts = None,
      created_at = 0, status = ''active'', messages = [],
      paused = None, paused_at = None, is_completed = None\<rparr>"

text \<open>A story with an opening, one user direction and one continuation.\<close>

definition story_told :: session where
  "story_told = story_demo
     \<lparr>messages := [ai_message ''The lamp was lit.'' 1, user_message ''A storm comes'' 2,
                   ai_message ''Waves rose.'' 2]\<rparr>"

text \<open>The same story told by two characters.\<close>

definition duet_story :: session where
  "duet_story = story_told\<lparr>characters := [nova, vega]\<rparr>"

text \<open>The two-turn chat after its first and after its second exchange.\<close>

definition chat_half :: session where
  "chat_half = chat_demo\<lparr>messages := [user_message ''Hi'' 1, ai_message ''Hello.'' 1]\<rparr>"

definition chat_done :: session where
  "chat_done = chat_demo
     \<lparr>messages := [user_message ''Hi'' 1, ai_message ''Hello.'' 1,
                   user_message ''How are you?'' 2, ai_message ''Fine.'' 2]\<rparr>"

text \<open>A quick chat (unlimited turns) and a story with unlimited parts.\<close>

definition quick_chat :: session where
  "quick_chat = chat_done\<lparr>turns := Some 999\<rparr>"

definition endless_story :: session where
  "endless_story = story_told\<lparr>parts := Some 999\<rparr>"

text \<open>The story right after its opening was saved, with three and with two parts.\<close>

definition story_opened :: session where
  "story_opened = story_demo\<lparr>messages := [ai_message ''The lamp was lit.'' 1]\<rparr>"

definition short_story :: session where
  "short_story = story_demo\<lparr>parts := Some 2\<rparr>"

text \<open>A request for a multi-character chat that names one character, one that names none,
  and character files that hold the same data for every id.\<close>

definition solo_multi_request :: create_request where
  "solo_multi_request =
     \<lparr>req_characters = Some [\<lparr>info_id = ''nova'', info_name = ''Nova'', info_preset = None\<rparr>],
      req_type = Some ''chat'', req_chatMode = Some ''multi'',
      req_scenario = Some ''A lighthouse'', req_setting = None,
      req_turns = Some (Some 4), req_parts = None\<rparr>"

definition empty_request :: create_request where
  "empty_request = solo_multi_request\<lparr>req_characters := Some []\<rparr>"

definition plain_files :: "string \<Rightarrow> char_data disk_file" where
  "plain_files wanted = File \<lparr>lore = []\<rparr>"

definition no_presets :: "char_data \<Rightarrow> string \<Rightarrow> char_data option" where
  "no_presets d preset_id = None"

text \<open>A multi-character chat of four turns between two characters, as the create
  endpoint hands it to the auto-run.\<close>

definition duet_chat :: session where
  "duet_chat = chat_demo
     \<lparr>chatMode := Some ''multi'', title := ''Multi-Character Chat - Nova, Vega'',
      characters := [nova, vega], turns := Some 4\<rparr>"

text \<open>A story for two characters right after its opening, with room for ten parts.\<close>

definition duet_opened :: session where
  "duet_opened = story_opened\<lparr>characters := [nova, vega], parts := Some 10\<rparr>"

text \<open>A client that posts the given user inputs to the generate endpoint one after the
  other.\<close>

fun generate_all :: "'p provider \<Rightarrow> epoch \<Rightarrow> string \<Rightarrow> string list \<Rightarrow> store \<Rightarrow> 'p \<Rightarrow> store \<times> 'p" where
  "generate_all prov mtime session_id [] st p = (st, p)"
| "generate_all prov mtime session_id (user_input # later) st p =
     (case generate_session_content prov mtime st p session_id user_input of
        (r, st', p') \<Rightarrow> generate_all prov mtime session_id later st' p')"

text \<open>A single-character chat request that names one character, and a characters directory
  that holds no file at all.\<close>

definition ghost_request :: create_request where
  "ghost_request = solo_multi_request\<lparr>req_chatMode := Some ''single''\<rparr>"

definition missing_files :: "string \<Rightarrow> char_data disk_file" where
  "missing_files wanted = No_file"

definition on_disk :: "session \<Rightarrow> store" where
  "on_disk session_data = Map.empty(ident session_data \<mapsto> session_data)"

section \<open>Evaluation rules for the concrete sessions\<close>

lemmas demo_defs = duet_opened_def duet_chat_def story_opened_def short_story_def quick_chat_def endless_story_def chat_half_def chat_done_def duet_story_def story_told_def story_demo_def chat_demo_def on_disk_def nova_def vega_def
  ai_message_def user_message_def system_message_def ai_messages_def

section \<open>The sanitizer falls back to its input\<close>

text \<open>
  Claim C7. For every input text and preset, if the secondary generation call inside
  \<^verbatim>\<open>sanitize_story\<close> raises, the function returns the input text unchanged, and it makes a
  single attempt: the provider is left in the state that follows exactly one call (no call
  at all when the preset file cannot be loaded), whatever a second call would have answered.
\<close>

theorem sanitize_story_failure_returns_input:
  assumes fails: "\<And>req. fst (prov p req) = Api_raises"
  shows "sanitize_story prov presets p story_content preset_id =
           (story_content,
            case sanitize_request presets story_content preset_id of
              None \<Rightarrow> p
            | Some req \<Rightarrow> snd (prov p req))"
proof (cases "sanitize_request presets story_content preset_id")
  case None
  then show ?thesis by (simp add: sanitize_story_def)
next
  case (Some req)
  obtain r p' where call: "prov p req = (r, p')" by (cases "prov p req")
  with fails [of req] have "r = Api_raises" by simp
  with Some call show ?thesis by (simp add: sanitize_story_def)
qed

theorem sanitize_story_failure_returns_input_witness:
  "sanitize_story scripted (\<lambda>i. No_file) [Api_raises, Api_content (Some ''clean'')]
      ''Once upon a time'' ''sanitizer-balanced''
     = (''Once upon a time'', [Api_content (Some ''clean'')])"
  using sanitize_story_failure_returns_input
    [of scripted "[Api_raises, Api_content (Some ''clean'')]"
      "\<lambda>i. No_file" "''Once upon a time''" "''sanitizer-balanced''"]
  by (simp add: sanitize_request_def del: count_words.simps)

section \<open>The sanitize endpoint\<close>


lemma sanitize_session_story_accepts:
  assumes "st sid = Some sd" "stype sd = ''story''" "ai_messages sd \<noteq> []"
  shows "sanitize_session_story prov presets now st p sid preset_opt =
     (let original_story = join ''\<newline>\<newline>'' (map content (ai_messages sd));
          res = sanitize_story prov presets p original_story
                  (case preset_opt of None \<Rightarrow> ''sanitizer-balanced'' | Some i \<Rightarrow> i);
          sd' = sd\<lparr>messages := [\<lparr>mtype = ''ai'', mcharacter = None, content = fst res,
                                     timestamp = now, sanitized = Some True\<rparr>]\<rparr>
      in (Sanitized (length original_story) (length (fst res))
            (int (length original_story) - int (length (fst res))) sd',
          st(sid \<mapsto> sd'), snd res))"
  using assms by (simp add: sanitize_session_story_def Let_def split: prod.splits)

text \<open>
  Claim C6. For a sanitize request on an existing session: if the session is of type story
  and has at least one ai message, the persisted document afterwards holds exactly one
  message, of type ai and flagged sanitized, so the prior ai messages are gone; otherwise the
  request is answered with status 400 and the store and the provider are untouched.
\<close>

theorem sanitize_yields_one_ai_message:
  assumes "st sid = Some sd"
  shows "let res = sanitize_session_story prov presets now st p sid preset_opt in
         if stype sd = ''story'' \<and> ai_messages sd \<noteq> []
         then (\<exists>sd' m. fst (snd res) sid = Some sd' \<and> messages sd' = [m] \<and>
                 mtype m = ''ai'' \<and> sanitized m = Some True \<and> ai_messages sd' = [m])
         else http_code (fst res) = Some 400 \<and> fst (snd res) = st \<and> snd (snd res) = p"
proof (cases "stype sd = ''story'' \<and> ai_messages sd \<noteq> []")
  case True
  then show ?thesis
    using assms
    by (simp add: sanitize_session_story_accepts Let_def ai_messages_def)
next
  case False
  then show ?thesis
    using assms by (auto simp: sanitize_session_story_def Let_def)
qed

theorem sanitize_yields_one_ai_message_witness:
  "(\<exists>sd' m. fst (snd (sanitize_session_story scripted (\<lambda>i. No_file) 5 (on_disk story_told)
                  [Api_content (Some ''The lamp was lit. Waves rose.'')] ''a1b2c3d4'' None))
               ''a1b2c3d4'' = Some sd' \<and>
            messages sd' = [m] \<and> mtype m = ''ai'' \<and> sanitized m = Some True \<and>
            ai_messages sd' = [m]) \<and>
   http_code (fst (sanitize_session_story scripted (\<lambda>i. No_file) 5 (on_disk chat_demo)
                  [Api_content (Some ''x'')] ''e5f6a7b8'' None)) = Some 400 \<and>
   fst (snd (sanitize_session_story scripted (\<lambda>i. No_file) 5 (on_disk chat_demo)
                  [Api_content (Some ''x'')] ''e5f6a7b8'' None)) = on_disk chat_demo \<and>
   http_code (fst (sanitize_session_story scripted (\<lambda>i. No_file) 5 (on_disk story_demo)
                  [Api_content (Some ''x'')] ''a1b2c3d4'' None)) = Some 400"
proof -
  have a: "on_disk story_told ''a1b2c3d4'' = Some story_told"
    and b: "on_disk chat_demo ''e5f6a7b8'' = Some chat_demo"
    and c: "on_disk story_demo ''a1b2c3d4'' = Some story_demo"
    by (simp_all add: demo_defs)
  have ta: "stype story_told = ''story'' \<and> ai_messages story_told \<noteq> []"
    and tb: "\<not> (stype chat_demo = ''story'' \<and> ai_messages chat_demo \<noteq> [])"
    and tc: "\<not> (stype story_demo = ''story'' \<and> ai_messages story_demo \<noteq> [])"
    by (simp_all add: demo_defs)
  show ?thesis
    using sanitize_yields_one_ai_message
            [where st = "on_disk story_told" and sid = "''a1b2c3d4''" and sd = story_told,
             OF a, of scripted "\<lambda>i. No_file" 5
               "[Api_content (Some ''The lamp was lit. Waves rose.'')]" None]
          sanitize_yields_one_ai_message
            [where st = "on_disk chat_demo" and sid = "''e5f6a7b8''" and sd = chat_demo,
             OF b, of scripted "\<lambda>i. No_file" 5 "[Api_content (Some ''x'')]" None]
          sanitize_yields_one_ai_message
            [where st = "on_disk story_demo" and sid = "''a1b2c3d4''" and sd = story_demo,
             OF c, of scripted "\<lambda>i. No_file" 5 "[Api_content (Some ''x'')]" None]
    unfolding Let_def if_P [OF ta] if_not_P [OF tb] if_not_P [OF tc]
    by blast
qed



section \<open>Pause and resume change the pause keys only\<close>

text \<open>
  Claim C8. On an existing session, the pause operation sets the pause markers and leaves
  every other field, the message list included, as it was; the resume operation removes the
  pause markers and leaves every other field as it was; and a generate call on a paused
  session, in particular right after a pause, answers with the paused response and changes
  neither the store nor the provider, so it appends no message.
\<close>

theorem pause_resume_frame:
  assumes "st sid = Some sd"
  shows "(\<exists>sd'. pause_session now st sid =
                  (Message_response ''Session paused successfully'', st(sid \<mapsto> sd')) \<and>
                sd'\<lparr>paused := paused sd, paused_at := paused_at sd\<rparr> = sd \<and>
                messages sd' = messages sd \<and>
                paused sd' = Some True \<and> paused_at sd' = Some now) \<and>
         (\<exists>sd'. resume_session st sid =
                  (Message_response ''Session resumed successfully'', st(sid \<mapsto> sd')) \<and>
                sd'\<lparr>paused := paused sd, paused_at := paused_at sd\<rparr> = sd \<and>
                messages sd' = messages sd \<and>
                paused sd' = None \<and> paused_at sd' = None) \<and>
         (paused sd = Some True \<longrightarrow>
            generate_session_content prov mtime st p sid user_input = (Paused_response, st, p)) \<and>
         generate_session_content prov mtime (snd (pause_session now st sid)) p sid user_input
           = (Paused_response, snd (pause_session now st sid), p)"
proof (intro conjI)
  show "\<exists>sd'. pause_session now st sid =
                  (Message_response ''Session paused successfully'', st(sid \<mapsto> sd')) \<and>
                sd'\<lparr>paused := paused sd, paused_at := paused_at sd\<rparr> = sd \<and>
                messages sd' = messages sd \<and>
                paused sd' = Some True \<and> paused_at sd' = Some now"
    using assms
    by (intro exI [of _ "sd\<lparr>paused := Some True, paused_at := Some now\<rparr>"])
       (simp add: pause_session_def)
  show "\<exists>sd'. resume_session st sid =
                  (Message_response ''Session resumed successfully'', st(sid \<mapsto> sd')) \<and>
                sd'\<lparr>paused := paused sd, paused_at := paused_at sd\<rparr> = sd \<and>
                messages sd' = messages sd \<and>
                paused sd' = None \<and> paused_at sd' = None"
    using assms
    by (intro exI [of _ "sd\<lparr>paused := None, paused_at := None\<rparr>"])
       (simp add: resume_session_def)
  show "paused sd = Some True \<longrightarrow>
            generate_session_content prov mtime st p sid user_input = (Paused_response, st, p)"
    using assms by (simp add: generate_session_content_def)
  show "generate_session_content prov mtime (snd (pause_session now st sid)) p sid user_input
           = (Paused_response, snd (pause_session now st sid), p)"
    using assms by (simp add: generate_session_content_def pause_session_def)
qed

theorem pause_resume_frame_witness:
  "(\<exists>sd'. snd (pause_session 7 (on_disk story_told) ''a1b2c3d4'') ''a1b2c3d4'' = Some sd' \<and>
          messages sd' = messages story_told \<and> paused sd' = Some True) \<and>
   (\<exists>sd'. snd (resume_session (on_disk (story_told\<lparr>paused := Some True, paused_at := Some 7\<rparr>))
                  ''a1b2c3d4'') ''a1b2c3d4'' = Some sd' \<and>
          messages sd' = messages story_told \<and> paused sd' = None) \<and>
   generate_session_content scripted 3
       (on_disk (story_told\<lparr>paused := Some True, paused_at := Some 7\<rparr>))
       [Api_content (Some ''More.'')] ''a1b2c3d4'' ''Go on''
     = (Paused_response, on_disk (story_told\<lparr>paused := Some True, paused_at := Some 7\<rparr>),
        [Api_content (Some ''More.'')])"
proof -
  let ?paused = "story_told\<lparr>paused := Some True, paused_at := Some 7\<rparr>"
  have a: "on_disk story_told ''a1b2c3d4'' = Some story_told"
    and b: "on_disk ?paused ''a1b2c3d4'' = Some ?paused"
    and c: "paused ?paused = Some True" and d: "paused story_told = None"
    and e: "paused_at story_told = None"
    by (simp_all add: demo_defs)
  from pause_resume_frame
         [where st = "on_disk story_told" and sid = "''a1b2c3d4''" and sd = story_told,
          OF a, of 7 scripted 3 "[]" "[]"]
  have 1: "\<exists>sd'. snd (pause_session 7 (on_disk story_told) ''a1b2c3d4'') ''a1b2c3d4'' = Some sd' \<and>
          messages sd' = messages story_told \<and> paused sd' = Some True"
    by auto
  from pause_resume_frame
         [where st = "on_disk ?paused" and sid = "''a1b2c3d4''" and sd = ?paused,
          OF b, of 7 scripted 3 "[Api_content (Some ''More.'')]" "''Go on''"] c
  have 2: "(\<exists>sd'. snd (resume_session (on_disk ?paused) ''a1b2c3d4'') ''a1b2c3d4'' = Some sd' \<and>
          messages sd' = messages story_told \<and> paused sd' = None) \<and>
        generate_session_content scripted 3 (on_disk ?paused)
           [Api_content (Some ''More.'')] ''a1b2c3d4'' ''Go on''
         = (Paused_response, on_disk ?paused, [Api_content (Some ''More.'')])"
    using d e by auto
  from 1 2 show ?thesis by blast
qed

section \<open>Speaker rotation\<close>

lemma chat_call_state:
  "snd (chat_call prov p ch h m) = snd (prov p (Chat_request (char_data ch) (char_name ch) h m))"
  by (simp add: chat_call_def split: prod.splits api_result.splits option.splits)

text \<open>What the two functions compute, for a session with at least one participant: chat
  mode asks participant \<open>k mod N\<close>, \<open>k\<close> the number of ai messages; story mode asks participant
  \<open>m mod N\<close>, \<open>m\<close> the number of all messages, which is \<open>k\<close> only when every message is an ai
  message.\<close>

lemma speaker_indices:
  assumes "characters sd \<noteq> []"
  shows "(\<exists>h m. snd (generate_chat_response prov p sd user_input) =
            snd (prov p (Chat_request
              (char_data (characters sd ! (length (ai_messages sd) mod length (characters sd))))
              (char_name (characters sd ! (length (ai_messages sd) mod length (characters sd))))
              h m))) \<and>
         (\<exists>m. snd (generate_story_continuation prov p sd user_input) =
            snd (prov p (Chat_request
              (char_data (characters sd ! (length (messages sd) mod length (characters sd))))
              (char_name (characters sd ! (length (messages sd) mod length (characters sd))))
              [] m))) \<and>
         ((\<forall>msg \<in> set (messages sd). mtype msg = ''ai'') \<longrightarrow>
            length (messages sd) = length (ai_messages sd))"
proof (intro conjI)
  let ?c = "characters sd ! (length (ai_messages sd) mod length (characters sd))"
  have "snd (generate_chat_response prov p sd user_input) =
          snd (chat_call prov p ?c (chat_history sd) (chat_prompt sd ?c user_input))"
    using assms by (simp add: generate_chat_response_def Let_def split: prod.splits sum.splits)
  then show "\<exists>h m. snd (generate_chat_response prov p sd user_input) =
            snd (prov p (Chat_request (char_data ?c) (char_name ?c) h m))"
    unfolding chat_call_state by blast
next
  let ?c = "characters sd ! (length (messages sd) mod length (characters sd))"
  have "snd (generate_story_continuation prov p sd user_input) =
          snd (chat_call prov p ?c [] (story_user_msg sd user_input))"
    using assms by (simp add: generate_story_continuation_def Let_def split: prod.splits sum.splits)
  then show "\<exists>m. snd (generate_story_continuation prov p sd user_input) =
            snd (prov p (Chat_request (char_data ?c) (char_name ?c) [] m))"
    unfolding chat_call_state by blast
next
  show "(\<forall>msg \<in> set (messages sd). mtype msg = ''ai'') \<longrightarrow>
            length (messages sd) = length (ai_messages sd)"
    by (simp add: ai_messages_def)
qed

text \<open>
  Claim C5 says that in chat mode and in story mode alike the speaker of turn \<open>k\<close>, the
  number of ai messages so far, is participant \<open>k mod N\<close>. Chat mode does that. Story mode
  takes the number of all messages instead, so each user direction shifts the rotation:
  below, a story for Nova and Vega has its opening, and a client posts three user directions
  in turn. The ai counts before the three calls are 1, 2 and 3, so the speakers should be
  Vega, Nova, Vega; every call appends a user and an ai message, the message count stays
  odd, and all three requests go to Vega.
\<close>

theorem story_rotation_counts_all_messages:
  "map requested_name
     (snd (generate_all logging 2 ''a1b2c3d4'' [''A storm comes'', ''A ship appears'', ''It sinks'']
             (on_disk duet_opened) []))
     = [''Vega'', ''Vega'', ''Vega''] \<and>
   map (\<lambda>k. char_name (characters duet_opened ! (k mod length (characters duet_opened))))
     [1, 2, 3] = [''Vega'', ''Nova'', ''Vega'']"
  by (simp add: generate_session_content_def limit_check_def finish_turn_def
        generate_story_continuation_def chat_call_def logging_def strip_def is_space_def
        demo_defs Let_def mod_Suc eval_nat_numeral)

section \<open>The generate endpoint under a bounded limit\<close>

lemma ai_messages_simps [simp]:
  "ai_messages (sd\<lparr>status := a\<rparr>) = ai_messages sd"
  "ai_messages (sd\<lparr>is_completed := b\<rparr>) = ai_messages sd"
  by (simp_all add: ai_messages_def)

lemma limit_check_bounded:
  assumes "bounded_limit sd L"
  shows "limit_check sd =
           Inr (if L \<le> int (length (ai_messages sd))
                then Some (Limit_reached (length (ai_messages sd)) L) else None)"
  using assms by (auto simp: limit_check_def bounded_limit_def Let_def)

lemma finish_turn_bounded:
  assumes "bounded_limit sd L"
  shows "finish_turn r sd sid st =
           (Generated r (L \<le> int (length (ai_messages sd))) (length (ai_messages sd)) (Some L),
            if L \<le> int (length (ai_messages sd))
            then st(sid \<mapsto> sd\<lparr>status := ''completed'', is_completed := Some True\<rparr>) else st)"
  using assms by (auto simp: finish_turn_def bounded_limit_def Let_def)

lemma story_part_iteration_ok:
  assumes "st sid = Some x"
  shows "\<exists>sd2 st2 p2. story_part_iteration prov mtime sid st p = (Inr sd2, st2, p2) \<and>
           st2 sid = Some sd2"
  using assms
  by (auto simp: story_part_iteration_def Let_def split: prod.splits)

lemma story_parts_loop_ok:
  assumes "st sid = Some x"
  shows "\<exists>sd2 st2 p2. story_parts_loop prov mtime sid k sd0 st p = (Inr sd2, st2, p2)"
  using assms
proof (induction k arbitrary: sd0 st p x)
  case 0
  then show ?case by simp
next
  case (Suc k)
  from story_part_iteration_ok [where st = st and sid = sid, OF Suc.prems, of prov mtime p]
  obtain sd2 st2 p2 where it: "story_part_iteration prov mtime sid st p = (Inr sd2, st2, p2)"
    and here: "st2 sid = Some sd2" by blast
  from Suc.IH [where st = st2, OF here, of sd2 p2] it show ?case by simp
qed

lemma story_opening_step_keeps_file:
  assumes "st sid = Some x" "story_opening_step prov mtime sd sid st p act = (sd1, st1, p1)"
  shows "\<exists>y. st1 sid = Some y"
proof (cases "generate_story_opening prov p sd")
  case (Pair first_part p')
  show ?thesis
  proof (cases first_part)
    case None
    with Pair assms show ?thesis by (simp add: story_opening_step_def)
  next
    case (Some body)
    with Pair assms show ?thesis
      by (cases "body = []") (auto simp: story_opening_step_def Let_def)
  qed
qed

lemma generate_complete_story_bounded:
  assumes "parts sd = Some L" "L \<noteq> 999" "st sid = Some x"
  shows "\<exists>body n sd3 st3 p3.
           generate_complete_story prov mtime sd sid st p = (Story_generated body n L, st3, p3) \<and>
           st3 sid = Some sd3 \<and> status sd3 = ''completed'' \<and> is_completed sd3 = Some True"
proof -
  obtain sd1 st1 p1 where op: "story_opening_step prov mtime sd sid st p False = (sd1, st1, p1)"
    by (cases "story_opening_step prov mtime sd sid st p False")
  from story_opening_step_keeps_file [where st = st and sid = sid, OF assms(3) op]
  obtain y where y: "st1 sid = Some y" ..
  from story_parts_loop_ok [where st = st1 and sid = sid, OF y, of prov mtime "nat (L - 1)" sd1 p1]
  obtain sd2 st2 p2 where
    lp: "story_parts_loop prov mtime sid (nat (L - 1)) sd1 st1 p1 = (Inr sd2, st2, p2)" by blast
  show ?thesis
    using assms(1,2) op lp by (simp add: generate_complete_story_def Let_def)
qed

lemma generate_single_turn:
  assumes "st sid = Some sd" "paused sd \<noteq> Some True"
    and "\<not> (stype sd = ''story'' \<and> user_input = [])"
    and "(if turns sd = Some 999 then Inr None else limit_check sd) = Inr None"
    and "(if stype sd = ''story'' then generate_story_continuation prov p sd user_input
          else generate_chat_response prov p sd user_input) = (r, p')"
  shows "generate_session_content prov mtime st p sid user_input =
     (let sd1 = sd\<lparr>messages := messages sd @
                     (if user_input \<noteq> [] then [user_message user_input mtime] else []) @
                     [ai_message r mtime]\<rparr>;
          sd' = (if r \<noteq> [] then sd1 else sd);
          st' = (if r \<noteq> [] then st(sid \<mapsto> sd1) else st)
      in if turns sd = Some 999
         then (Generated r False (length (ai_messages sd')) None, st', p')
         else (fst (finish_turn r sd' sid st'), snd (finish_turn r sd' sid st'), p'))"
  unfolding generate_session_content_def Let_def
  apply (simp only: assms(1) option.case)
  apply (simp only: assms(2) if_False)
  apply (simp only: assms(4) sum.case option.case)
  apply (simp only: assms(3) if_False)
  apply (simp only: assms(5) prod.case)
  apply (cases "r = []")
   apply (simp_all add: case_prod_beta)
  done

lemma generate_when_not_limited:
  assumes "st sid = Some sd" "paused sd \<noteq> Some True"
    and "stype sd = ''story'' \<and> user_input = []"
    and "(if turns sd = Some 999 then Inr None else limit_check sd) = Inr None"
  shows "generate_session_content prov mtime st p sid user_input =
           generate_complete_story prov mtime sd sid st p"
  unfolding generate_session_content_def Let_def
  apply (simp only: assms(1) option.case)
  apply (simp only: assms(2) if_False)
  apply (simp only: assms(4) sum.case option.case)
  apply (simp add: assms(3))
  done

lemma generate_when_paused:
  assumes "st sid = Some sd" "paused sd = Some True"
  shows "generate_session_content prov mtime st p sid user_input = (Paused_response, st, p)"
  using assms by (simp add: generate_session_content_def)

lemma chat_half_turn:
  "generate_session_content scripted 3 (on_disk chat_half) [Api_content (Some '' Fine. '')]
      ''e5f6a7b8'' ''How are you?''
     = (Generated ''Fine.'' True 2 (Some 2),
        on_disk (chat_half
          \<lparr>messages := messages chat_half @
             [user_message ''How are you?'' 3, ai_message ''Fine.'' 3],
           status := ''completed'', is_completed := Some True\<rparr>),
        [])"
  by (simp add: generate_session_content_def limit_check_def finish_turn_def
        generate_chat_response_def chat_call_def strip_def is_space_def demo_defs Let_def)

text \<open>
  Claim C1, as amended. For every session with a bounded limit \<open>L\<close>: a generate call on a
  session that is not paused and whose ai-message count is already at least \<open>L\<close> returns the
  completed response and leaves the store (so the message list and the whole document) and
  the provider unchanged; and a generate call that starts below \<open>L\<close> and leaves the persisted
  document with exactly \<open>L\<close> ai messages reports completed and has set status to completed
  and is_completed to true. On a paused session the first call is answered with the paused
  response, which carries no completed key: the counterexample.
\<close>

theorem bounded_limit_completion:
  assumes "st sid = Some sd" and "bounded_limit sd L"
  shows "(paused sd \<noteq> Some True \<and> L \<le> int (length (ai_messages sd)) \<longrightarrow>
            generate_session_content prov mtime st p sid user_input =
              (Limit_reached (length (ai_messages sd)) L, st, p)) \<and>
         (\<forall>sd'. int (length (ai_messages sd)) < L \<and>
                fst (snd (generate_session_content prov mtime st p sid user_input)) sid = Some sd' \<and>
                int (length (ai_messages sd')) = L \<longrightarrow>
            completed_of (fst (generate_session_content prov mtime st p sid user_input)) = Some True \<and>
            status sd' = ''completed'' \<and> is_completed sd' = Some True)"
proof -
  have nq: "turns sd \<noteq> Some 999"
    using assms(2) by (auto simp: bounded_limit_def split: if_splits)
  have first: "generate_session_content prov mtime st p sid user_input =
              (Limit_reached (length (ai_messages sd)) L, st, p)"
    if "paused sd \<noteq> Some True \<and> L \<le> int (length (ai_messages sd))"
    using that assms(1) nq limit_check_bounded [OF assms(2)]
    by (simp add: generate_session_content_def)
  have second: "completed_of (fst (generate_session_content prov mtime st p sid user_input)) = Some True \<and>
        status sd' = ''completed'' \<and> is_completed sd' = Some True"
    if h: "int (length (ai_messages sd)) < L \<and>
           fst (snd (generate_session_content prov mtime st p sid user_input)) sid = Some sd' \<and>
           int (length (ai_messages sd')) = L" for sd'
  proof -
  let ?gen = "generate_session_content prov mtime st p sid user_input"
  from h have less: "int (length (ai_messages sd)) < L"
    and after: "fst (snd ?gen) sid = Some sd'"
    and reach: "int (length (ai_messages sd')) = L" by simp_all
  have nq: "turns sd \<noteq> Some 999"
    using assms(2) by (auto simp: bounded_limit_def split: if_splits)
  have gate: "(if turns sd = Some 999 then Inr None else limit_check sd) = Inr None"
    using limit_check_bounded [OF assms(2)] less nq by simp
  show "completed_of (fst ?gen) = Some True \<and> status sd' = ''completed'' \<and>
        is_completed sd' = Some True"
  proof (cases "paused sd = Some True")
    case True
    have "fst (snd ?gen) = st"
      by (simp add: generate_when_paused [where st = st and sid = sid, OF assms(1) True])
    with after assms(1) have "sd' = sd" by simp
    with less reach show ?thesis by simp
  next
    case np: False
    show ?thesis
    proof (cases "stype sd = ''story'' \<and> user_input = []")
      case True
      then have pl: "parts sd = Some L" "L \<noteq> 999"
        using assms(2) by (auto simp: bounded_limit_def)
      from generate_complete_story_bounded
             [where st = st and sid = sid, OF pl assms(1), of prov mtime p]
      obtain body n sd3 st3 p3 where
        g: "generate_complete_story prov mtime sd sid st p = (Story_generated body n L, st3, p3)"
           "st3 sid = Some sd3" "status sd3 = ''completed''" "is_completed sd3 = Some True"
        by blast
      have "?gen = (Story_generated body n L, st3, p3)"
        using generate_when_not_limited
                [where st = st and sid = sid, OF assms(1) np True gate, of prov mtime p]
              g(1) by simp
      with g(2,3,4) after show ?thesis by simp
    next
      case single: False
      obtain r p' where turn:
        "(if stype sd = ''story'' then generate_story_continuation prov p sd user_input
          else generate_chat_response prov p sd user_input) = (r, p')"
        by (cases "if stype sd = ''story'' then generate_story_continuation prov p sd user_input
          else generate_chat_response prov p sd user_input")
      let ?sd1 = "sd\<lparr>messages := messages sd @
                     (if user_input \<noteq> [] then [user_message user_input mtime] else []) @
                     [ai_message r mtime]\<rparr>"
      let ?sd' = "if r \<noteq> [] then ?sd1 else sd"
      let ?st' = "if r \<noteq> [] then st(sid \<mapsto> ?sd1) else st"
      have b1: "bounded_limit ?sd' L" using assms(2) by (simp add: bounded_limit_def)
      have here: "?st' sid = Some ?sd'" using assms(1) by simp
      have gen: "?gen = (fst (finish_turn r ?sd' sid ?st'), snd (finish_turn r ?sd' sid ?st'), p')"
        using generate_single_turn
                [where st = st and sid = sid, OF assms(1) np single gate turn, of mtime] nq
        by (simp add: Let_def)
      let ?c = "int (length (ai_messages ?sd'))"
      have ft: "finish_turn r ?sd' sid ?st' =
                  (Generated r (L \<le> ?c) (length (ai_messages ?sd')) (Some L),
                   if L \<le> ?c
                   then ?st'(sid \<mapsto> ?sd'\<lparr>status := ''completed'', is_completed := Some True\<rparr>)
                   else ?st')"
        by (rule finish_turn_bounded [OF b1])
      show ?thesis
      proof (cases "L \<le> ?c")
        case True
        with gen ft have "fst ?gen = Generated r True (length (ai_messages ?sd')) (Some L)"
          and "fst (snd ?gen) sid = Some (?sd'\<lparr>status := ''completed'', is_completed := Some True\<rparr>)"
          by simp_all
        with after show ?thesis by auto
      next
        case False
        with gen ft have "fst (snd ?gen) = ?st'" by simp
        with after here have "sd' = ?sd'" by simp
        with reach False show ?thesis by simp
      qed
    qed
  qed
qed
  from first second show ?thesis by blast
qed

theorem bounded_limit_completion_counterexample:
  "turns (chat_done\<lparr>paused := Some True, paused_at := Some 7\<rparr>) = Some 2 \<and>
   length (ai_messages (chat_done\<lparr>paused := Some True, paused_at := Some 7\<rparr>)) = 2 \<and>
   generate_session_content scripted 1
       (on_disk (chat_done\<lparr>paused := Some True, paused_at := Some 7\<rparr>)) [] ''e5f6a7b8'' ''Hi''
     = (Paused_response, on_disk (chat_done\<lparr>paused := Some True, paused_at := Some 7\<rparr>), []) \<and>
   completed_of (fst (generate_session_content scripted 1
       (on_disk (chat_done\<lparr>paused := Some True, paused_at := Some 7\<rparr>)) [] ''e5f6a7b8'' ''Hi''))
     \<noteq> Some True"
  by (simp add: generate_session_content_def demo_defs)

theorem bounded_limit_completion_witness:
  "generate_session_content scripted 3 (on_disk chat_done) [Api_content (Some ''More'')]
      ''e5f6a7b8'' ''Hi''
     = (Limit_reached 2 2, on_disk chat_done, [Api_content (Some ''More'')]) \<and>
   completed_of (fst (generate_session_content scripted 3 (on_disk chat_half)
      [Api_content (Some '' Fine. '')] ''e5f6a7b8'' ''How are you?'')) = Some True \<and>
   (\<exists>sd'. fst (snd (generate_session_content scripted 3 (on_disk chat_half)
            [Api_content (Some '' Fine. '')] ''e5f6a7b8'' ''How are you?'')) ''e5f6a7b8'' = Some sd' \<and>
          length (ai_messages sd') = 2 \<and>
          status sd' = ''completed'' \<and> is_completed sd' = Some True)"
proof -
  have a: "on_disk chat_done ''e5f6a7b8'' = Some chat_done"
    and b: "bounded_limit chat_done 2"
    and c: "paused chat_done \<noteq> Some True \<and> 2 \<le> int (length (ai_messages chat_done))"
    by (simp_all add: demo_defs bounded_limit_def)
  have a': "on_disk chat_half ''e5f6a7b8'' = Some chat_half"
    and b': "bounded_limit chat_half 2"
    and c': "int (length (ai_messages chat_half)) < 2"
    by (simp_all add: demo_defs bounded_limit_def)
  let ?after = "chat_half
          \<lparr>messages := messages chat_half @
             [user_message ''How are you?'' 3, ai_message ''Fine.'' 3],
           status := ''completed'', is_completed := Some True\<rparr>"
  have d': "fst (snd (generate_session_content scripted 3 (on_disk chat_half)
            [Api_content (Some '' Fine. '')] ''e5f6a7b8'' ''How are you?'')) ''e5f6a7b8''
              = Some ?after"
    and e': "int (length (ai_messages ?after)) = 2"
    by (simp_all add: chat_half_turn) (simp_all add: demo_defs)
  from bounded_limit_completion
         [where st = "on_disk chat_done" and sid = "''e5f6a7b8''" and sd = chat_done and L = 2,
          OF a b, of scripted 3 "[Api_content (Some ''More'')]" "''Hi''"] c
  have 1: "generate_session_content scripted 3 (on_disk chat_done) [Api_content (Some ''More'')]
      ''e5f6a7b8'' ''Hi''
     = (Limit_reached 2 2, on_disk chat_done, [Api_content (Some ''More'')])"
    by (simp add: demo_defs)
  from bounded_limit_completion
         [where st = "on_disk chat_half" and sid = "''e5f6a7b8''" and sd = chat_half and L = 2,
          OF a' b', of scripted 3 "[Api_content (Some '' Fine. '')]" "''How are you?''"]
       c' d' e'
  have 2: "completed_of (fst (generate_session_content scripted 3 (on_disk chat_half)
      [Api_content (Some '' Fine. '')] ''e5f6a7b8'' ''How are you?'')) = Some True \<and>
      status ?after = ''completed'' \<and> is_completed ?after = Some True"
    by blast
  from 1 2 d' e' show ?thesis by auto
qed

section \<open>The generate endpoint under the unlimited sentinel\<close>








section \<open>Validation in the create endpoint\<close>

lemma multi_guard:
  assumes "length (characters sd) < 2"
  shows "generate_multi_character_conversation prov mtime sd sid st p = (None, st, p)"
  using assms by (simp add: generate_multi_character_conversation_def)

lemma load_characters_length:
  "load_characters char_files apply_preset cs = Inr chars \<Longrightarrow> length chars \<le> length cs"
proof (induction cs arbitrary: chars)
  case Nil
  then show ?case by simp
next
  case (Cons c cs)
  then show ?case
    by (cases "char_files (info_id c)")
       (auto simp: Let_def le_SucI split: sum.splits)
qed

text \<open>What the endpoint does: a request whose participant list is absent or empty is
  rejected with 400 and nothing changes; a multi-character chat request that ends with fewer
  than two loaded participants is persisted and answered 201, and the auto-run scheduled for
  it returns at its guard without calling the provider or writing anything.\<close>

lemma create_session_checks:
  "(req_characters data = None \<or> req_characters data = Some [] \<longrightarrow>
      create_session prov char_files apply_preset new_id mtime data st p =
        (Error_response 400 ''Characters are required'', st, p, None)) \<and>
   (\<forall>c cs chars.
      req_characters data = Some (c # cs) \<and>
      (req_type data = None \<or> req_type data = Some ''chat'') \<and>
      req_chatMode data = Some ''multi'' \<and>
      load_characters char_files apply_preset (c # cs) = Inr chars \<and> length chars < 2 \<longrightarrow>
      (\<exists>r sd. create_session prov char_files apply_preset new_id mtime data st p =
                 (r, st(new_id \<mapsto> sd), p, Some (Multi_task sd new_id)) \<and>
               http_code r = Some 201 \<and> characters sd = chars \<and>
               (\<forall>st' p' t. run_task prov t (Multi_task sd new_id) st' p' = (st', p'))))"
proof -
  have first: "create_session prov char_files apply_preset new_id mtime data st p =
        (Error_response 400 ''Characters are required'', st, p, None)"
    if "req_characters data = None \<or> req_characters data = Some []"
    using that by (auto simp: create_session_def)
  have second: "\<exists>r sd. create_session prov char_files apply_preset new_id mtime data st p =
                 (r, st(new_id \<mapsto> sd), p, Some (Multi_task sd new_id)) \<and>
               http_code r = Some 201 \<and> characters sd = chars \<and>
               (\<forall>st' p' t. run_task prov t (Multi_task sd new_id) st' p' = (st', p'))"
    if h: "req_characters data = Some (c # cs) \<and>
      (req_type data = None \<or> req_type data = Some ''chat'') \<and>
      req_chatMode data = Some ''multi'' \<and>
      load_characters char_files apply_preset (c # cs) = Inr chars \<and> length chars < 2"
    for c cs chars
  proof -
    let ?sd0 = "new_session data new_id mtime ''chat'' ''multi'' chars"
    let ?text = "''Multi-character conversation started between '' @
                   join '', '' (map char_name chars)"
    let ?sd = "?sd0\<lparr>messages := messages ?sd0 @ [system_message ?text mtime]\<rparr>"
    from h have ty: "(case req_type data of None \<Rightarrow> ''chat'' | Some t \<Rightarrow> t) = ''chat''"
      by auto
    have "create_session prov char_files apply_preset new_id mtime data st p =
            (created_response ?sd ?text ''Session created successfully'',
             st(new_id \<mapsto> ?sd), p, Some (Multi_task ?sd new_id))"
      using h ty by (simp add: create_session_def Let_def)
    moreover have "characters ?sd = chars" by (simp add: new_session_def)
    moreover have "http_code (created_response ?sd ?text ''Session created successfully'') = Some 201"
      by (simp add: created_response_def)
    moreover have "run_task prov t (Multi_task ?sd new_id) st' p' = (st', p')" for st' p' t
      using h by (simp add: multi_guard new_session_def)
    ultimately show ?thesis by blast
  qed
  from first second show ?thesis by blast
qed

text \<open>
  Claim C9 says that a create request with zero participants, or a multi-character chat
  request with fewer than two, is rejected before any state change, so that no session
  document is persisted. The endpoint tests only that the request's list is not empty.
  Below, a multi-character chat request naming one participant is answered 201 and its
  document persisted; and a chat request naming one participant whose character file does
  not exist is answered 201 and persisted with no participant at all.
\<close>

theorem create_session_accepts_too_few:
  "http_code (fst (create_session scripted plain_files no_presets ''c0ffee00'' 1
       solo_multi_request Map.empty [])) = Some 201 \<and>
   (\<exists>sd. fst (snd (create_session scripted plain_files no_presets ''c0ffee00'' 1
       solo_multi_request Map.empty [])) ''c0ffee00'' = Some sd \<and>
         map char_name (characters sd) = [''Nova''] \<and> chatMode sd = Some ''multi'') \<and>
   http_code (fst (create_session scripted missing_files no_presets ''c0ffee00'' 1
       ghost_request Map.empty [])) = Some 201 \<and>
   (\<exists>sd. fst (snd (create_session scripted missing_files no_presets ''c0ffee00'' 1
       ghost_request Map.empty [])) ''c0ffee00'' = Some sd \<and> characters sd = [])"
  by (simp add: create_session_def solo_multi_request_def ghost_request_def plain_files_def
        missing_files_def no_presets_def new_session_def created_response_def
        generate_chat_opening_def Let_def)

section \<open>Auto-runs, pause and provider failure\<close>

lemma paused_after_opening:
  "snd (pause_session 7 (on_disk story_opened) ''a1b2c3d4'')
     = on_disk (story_opened\<lparr>paused := Some True, paused_at := Some 7\<rparr>)"
  by (simp add: pause_session_def demo_defs)

text \<open>
  Claim C3 says that an auto-run polls the persisted pause flag before each turn and
  appends no ai message while the flag is set. The story loop reloads the document before
  each part but never reads the flag: below, the session is paused right after its opening
  was saved, and the two remaining iterations of the loop still append two ai messages to
  the persisted document, whose pause flag stays set throughout.
\<close>

theorem auto_run_ignores_pause:
  "story_parts_loop scripted 2 ''a1b2c3d4'' 2 story_opened
       (snd (pause_session 7 (on_disk story_opened) ''a1b2c3d4''))
       [Api_content (Some ''Waves rose.''), Api_content (Some ''Dawn came.'')]
     = (Inr (story_opened
               \<lparr>messages := [ai_message ''The lamp was lit.'' 1, ai_message ''Waves rose.'' 2,
                             ai_message ''Dawn came.'' 2],
                paused := Some True, paused_at := Some 7\<rparr>),
        on_disk (story_opened
               \<lparr>messages := [ai_message ''The lamp was lit.'' 1, ai_message ''Waves rose.'' 2,
                             ai_message ''Dawn came.'' 2],
                paused := Some True, paused_at := Some 7\<rparr>),
        [])"
  unfolding paused_after_opening
  by (simp add: numeral_2_eq_2 story_part_iteration_def
        generate_story_continuation_def chat_call_def strip_def is_space_def demo_defs Let_def)

text \<open>A pause that arrives before the run's first write fares no better: the run saves
  its in-memory document, which has no pause flag, and goes on to the end.\<close>

lemma auto_run_overwrites_pause:
  "generate_complete_story scripted 2 short_story ''a1b2c3d4''
       (on_disk (short_story\<lparr>paused := Some True, paused_at := Some 7\<rparr>))
       [Api_content (Some ''The lamp was lit.''), Api_content (Some ''Waves rose.'')]
     = (Story_generated ''The lamp was lit.\<newline>\<newline>Waves rose.'' 2 2,
        on_disk (short_story
          \<lparr>messages := [ai_message ''The lamp was lit.'' 2, ai_message ''Waves rose.'' 2],
           status := ''completed'', is_completed := Some True\<rparr>),
        [])"
  by (simp add: generate_complete_story_def story_opening_step_def generate_story_opening_def
        story_part_iteration_def generate_story_continuation_def chat_call_def strip_def
        is_space_def demo_defs Let_def)

text \<open>
  Claim C4 says that a provider failure inside an auto-run appends no message derived from
  the failed call and leaves the session not marked completed. In the story auto-run the
  failure is caught inside \<^verbatim>\<open>generate_story_continuation\<close>, whose fallback text the loop
  appends as an ai message, and the run goes on to mark the session completed: below, a story
  of two parts whose second provider call raises.
\<close>

theorem auto_run_failure_marks_completed:
  "generate_complete_story scripted 2 short_story ''a1b2c3d4'' (on_disk short_story)
       [Api_content (Some ''The lamp was lit.''), Api_raises]
     = (Story_generated (''The lamp was lit.'' @ ''\<newline>\<newline>'' @ story_fallback) 2 2,
        on_disk (short_story
          \<lparr>messages := [ai_message ''The lamp was lit.'' 2, ai_message story_fallback 2],
           status := ''completed'', is_completed := Some True\<rparr>),
        [])"
  by (simp add: generate_complete_story_def story_opening_step_def generate_story_opening_def
        story_part_iteration_def generate_story_continuation_def chat_call_def strip_def
        is_space_def demo_defs Let_def story_fallback_def)

text \<open>The multi-character auto-run does what the claim says: when the second call
  raises, the run stops with False, the document keeps its first turn and stays active.\<close>

lemma multi_character_failure_keeps_checkpoint:
  "generate_multi_character_conversation scripted 2 duet_chat ''e5f6a7b8'' (on_disk duet_chat)
       [Api_content (Some ''Hello, Vega.''), Api_raises, Api_content (Some ''Late.'')]
     = (Some False,
        on_disk (duet_chat
          \<lparr>messages := [\<lparr>mtype = ''ai'', mcharacter = Some ''Nova'', content = ''Hello, Vega.'',
                          timestamp = 2, sanitized = None\<rparr>]\<rparr>),
        [Api_content (Some ''Late.'')])"
  by (simp add: generate_multi_character_conversation_def eval_nat_numeral chat_call_def
        strip_def is_space_def demo_defs Let_def)

end
